theory Spec2Isabelle
  imports Complex_Main
begin

section \<open>Surface-pair visualisation model of surface-plots\<close>

text \<open>
  The development embeds the pure parts of \<^verbatim>\<open>src/plotly_helpers.py\<close> and the
  module-level pair loop and the annotation callback of \<^verbatim>\<open>src/app.py\<close>.

  Conventions of the embedding:
  \<^item> Python numbers that are floats in the program (grid values, opacities, tick positions,
    coordinates) are modelled by the rational numbers they denote (type \<^typ>\<open>rat\<close>);
    a decimal literal such as \<^verbatim>\<open>0.8\<close> is the rational \<open>4/5\<close>. Integers that count things
    (\<^verbatim>\<open>n_colors\<close>, \<^verbatim>\<open>n_clicks\<close>) are \<^typ>\<open>int\<close>.
  \<^item> A raised exception is the left injection of a sum; \<open>Inr\<close> carries the returned value.
  \<^item> A plotly object is a record of the arguments the program passes to its constructor.
    plotly validates the arguments of a layout and of a trace added to a figure and raises
    \<^verbatim>\<open>ValueError\<close> on a value it refuses (a negative aspect ratio, a colour string it does
    not know). plotly is not part of the repository: what it accepts is a parameter
    \<open>accepts\<close> of the functions that build such an object, and the theorems hold for every
    such parameter. For a surface the model keeps the descriptor, that is the arguments
    handed to \<^verbatim>\<open>go.Surface\<close>.
  \<^item> A numpy array is a list of rows of one element type, 64-bit integers or 64-bit floats.
    Integer arithmetic wraps around, written out by \<open>wrap64\<close>; float arithmetic overflows to an
    infinity, written out by \<open>f64\<close>. The rounding of floats is not modelled.
\<close>

subsection \<open>Exceptions and Python primitives\<close>

datatype py_error = ValueError | IndexError | KeyError | TypeError | UnmodelledBroadcast

text \<open>The call of a plotly constructor on the arguments \<open>args\<close>, where \<open>accepts\<close> says which
  arguments plotly's validation lets pass.\<close>

definition plotly_validate :: "('a \<Rightarrow> bool) \<Rightarrow> 'a \<Rightarrow> py_error + 'a" where
  "plotly_validate accepts args = (if accepts args then Inr args else Inl ValueError)"

text \<open>Two validators to evaluate the functions with: one that lets everything pass, for inputs
  plotly accepts, and one that refuses exactly one value.\<close>

definition accept_all :: "'a \<Rightarrow> bool" where
  "accept_all args = True"


text \<open>Python indexing \<^verbatim>\<open>xs[i]\<close>: a negative index counts from the end, and an index outside
  the list raises \<^verbatim>\<open>IndexError\<close>.\<close>

definition py_index :: "'a list \<Rightarrow> int \<Rightarrow> py_error + 'a" where
  "py_index xs i =
     (if 0 \<le> i \<and> i < int (length xs) then Inr (xs ! nat i)
      else if i < 0 \<and> - int (length xs) \<le> i then Inr (xs ! nat (int (length xs) + i))
      else Inl IndexError)"

text \<open>Python slicing \<^verbatim>\<open>xs[:n]\<close>: clamps silently, a negative bound counts from the end.\<close>

definition py_slice_to :: "'a list \<Rightarrow> int \<Rightarrow> 'a list" where
  "py_slice_to xs n =
     (if 0 \<le> n then take (nat n) xs else take (nat (int (length xs) + n)) xs)"

text \<open>\<^verbatim>\<open>range(n)\<close>: empty when \<open>n \<le> 0\<close>.\<close>

definition py_range :: "int \<Rightarrow> nat list" where
  "py_range n = [0..<nat n]"

text \<open>The substring test \<^verbatim>\<open>sub in s\<close> on strings.\<close>

definition starts_with :: "string \<Rightarrow> string \<Rightarrow> bool" where
  "starts_with s sub = (take (length sub) s = sub)"

fun str_contains :: "string \<Rightarrow> string \<Rightarrow> bool" where
  "str_contains [] sub = (sub = [])"
| "str_contains (c # cs) sub = (starts_with (c # cs) sub \<or> str_contains cs sub)"

text \<open>\<^verbatim>\<open>np.linspace(0, 1, num)\<close>: \<open>num\<close> evenly spaced points with both end points; a negative
  \<open>num\<close> raises \<^verbatim>\<open>ValueError\<close>, and a single point is the start.\<close>

definition linspace01 :: "int \<Rightarrow> py_error + rat list" where
  "linspace01 num =
     (if num < 0 then Inl ValueError
      else if num = 1 then Inr [0]
      else Inr (map (\<lambda>i. rat_of_nat i / rat_of_int (num - 1)) [0..<nat num]))"

text \<open>\<^verbatim>\<open>np.arange(start, stop, step)\<close> on integers with a positive step:
  \<open>start, start + step, \<dots>\<close> strictly below \<open>stop\<close>.\<close>

definition arange :: "int \<Rightarrow> int \<Rightarrow> int \<Rightarrow> int list" where
  "arange start stop step =
     map (\<lambda>k. start + int k * step) [0..<nat ((stop - start + step - 1) div step)]"

subsection \<open>The palette table\<close>

definition COLOR_SCALES :: "(string \<times> string list) list" where
  "COLOR_SCALES =
    [(''Set3'',
        [''#8DD3C7'', ''#FFFFB3'', ''#BEBADA'', ''#FB8072'', ''#80B1D3'', ''#FDB462'',
         ''#B3DE69'', ''#FCCDE5'', ''#D9D9D9'', ''#BC80BD'', ''#CCEBC5'', ''#FFED6F'']),
     (''R_rainbow_10'',
        [''#FF0000'', ''#FF9900'', ''#CCFF00'', ''#33FF00'', ''#00FF66'', ''#00FFFF'',
         ''#0066FF'', ''#3300FF'', ''#CC00FF'', ''#FF0099'']),
     (''D3'',
        [''#1f77b4'', ''#ff7f0e'', ''#2ca02c'', ''#d62728'', ''#9467bd'', ''#8c564b'',
         ''#e377c2'', ''#7f7f7f'', ''#bcbd22'', ''#17becf'']),
     (''Plotly'',
        [''#636efa'', ''#EF553B'', ''#00cc96'', ''#ab63fa'', ''#FFA15A'', ''#19d3f3'',
         ''#FF6692'', ''#B6E880'', ''#FF97FF'', ''#FECB52'']),
     (''G10'',
        [''#3366CC'', ''#DC3912'', ''#FF9900'', ''#109618'', ''#990099'', ''#3B3EAC'',
         ''#0099C6'', ''#DD4477'', ''#66AA00'', ''#B82E2E'']),
     (''Set1'',
        [''#e41a1c'', ''#377eb8'', ''#4daf4a'', ''#984ea3'', ''#ff7f00'', ''#ffff33'',
         ''#a65628'', ''#f781bf'', ''#999999'']),
     (''Light24'',
        [''#FD3216'', ''#00FE35'', ''#6A76FC'', ''#FED4C4'', ''#FE00CE'', ''#0DF9FF'',
         ''#F6F926'', ''#FF9616'', ''#479B55'', ''#EEA6FB'', ''#DC587D'', ''#D626FF'',
         ''#6E899C'', ''#00B5F7'', ''#B68E00'', ''#C9FBE5'', ''#FF0092'', ''#22FFA7'',
         ''#E3EE9E'', ''#86CE00'', ''#BC7196'', ''#7E7DCD'', ''#FC6955'', ''#E48F72'']),
     (''Vivid'',
        [''rgb(229, 134, 6)'', ''rgb(93, 105, 177)'', ''rgb(82, 188, 163)'',
         ''rgb(153, 201, 69)'', ''rgb(204, 97, 176)'', ''rgb(36, 121, 108)'',
         ''rgb(218, 165, 27)'', ''rgb(47, 138, 196)'', ''rgb(118, 78, 159)'',
         ''rgb(237, 100, 90)'', ''rgb(165, 170, 153)'']),
     (''Pastel'',
        [''rgb(102, 197, 204)'', ''rgb(246, 207, 113)'', ''rgb(248, 156, 116)'',
         ''rgb(220, 176, 242)'', ''rgb(135, 197, 95)'', ''rgb(158, 185, 243)'',
         ''rgb(254, 136, 177)'', ''rgb(201, 219, 116)'', ''rgb(139, 224, 164)'',
         ''rgb(180, 151, 231)'', ''rgb(179, 179, 179)''])]"

subsection \<open>Colorscale builder: \<^verbatim>\<open>make_colorscale_distinct\<close>\<close>

text \<open>The body of the \<^verbatim>\<open>for i in range(n_colors)\<close> loop reads \<^verbatim>\<open>scaled_values[i]\<close>,
  \<^verbatim>\<open>colors[i]\<close> and \<^verbatim>\<open>scaled_values[i + 1]\<close>; each read raises \<^verbatim>\<open>IndexError\<close> out of range.
  The accumulator is the list \<^verbatim>\<open>colorscale\<close>, extended by two entries per round.\<close>

fun colorscale_loop ::
  "rat list \<Rightarrow> string list \<Rightarrow> nat list \<Rightarrow> (rat \<times> string) list \<Rightarrow> py_error + (rat \<times> string) list"
where
  "colorscale_loop scaled_values colors [] colorscale = Inr colorscale"
| "colorscale_loop scaled_values colors (i # rest) colorscale =
     (if i < length scaled_values \<and> i < length colors \<and> Suc i < length scaled_values
      then colorscale_loop scaled_values colors rest
             (colorscale @ [(scaled_values ! i, colors ! i), (scaled_values ! Suc i, colors ! i)])
      else Inl IndexError)"

definition make_colorscale_distinct :: "int \<Rightarrow> string \<Rightarrow> py_error + (rat \<times> string) list" where
  "make_colorscale_distinct n_colors pal =
     (case linspace01 (n_colors + 1) of
        Inl e \<Rightarrow> Inl e
      | Inr scaled_values \<Rightarrow>
          (case map_of COLOR_SCALES pal of
             None \<Rightarrow> Inl ValueError
           | Some colors \<Rightarrow>
               colorscale_loop scaled_values (py_slice_to colors n_colors) (py_range n_colors) []))"

subsection \<open>Surface descriptor builder: \<^verbatim>\<open>create_surface\<close>\<close>

record colorbar =
  cb_tickmode :: string
  cb_tickvals :: "int list"
  cb_ticktext :: "int list"
  cb_orientation :: string
  cb_y :: rat
  cb_x :: rat
  cb_len :: rat
  cb_tickfont_size :: int

record contour =
  ct_show :: bool
  ct_start :: rat
  ct_end :: rat
  ct_size :: rat
  ct_color :: string
  ct_width :: int

record surface =
  sf_x :: "rat list"
  sf_y :: "rat list"
  sf_z :: "rat list list"
  sf_opacity :: rat
  sf_colorscale :: "(rat \<times> string) list"
  sf_cmin :: int
  sf_cmax :: int
  sf_showscale :: bool
  sf_colorbar :: colorbar
  sf_contours_x :: contour
  sf_contours_y :: contour
  sf_hoverinfo :: string
  sf_lighting_ambient :: rat
  sf_lighting_diffuse :: rat

definition create_surface ::
  "rat list \<Rightarrow> rat list \<Rightarrow> rat list list \<Rightarrow> (rat \<times> string) list \<Rightarrow> int \<Rightarrow> rat \<Rightarrow> bool \<Rightarrow> rat
     \<Rightarrow> surface"
where
  "create_surface x y z colors_scaled n_colors opacity show_colorbar ambient_light =
     \<lparr> sf_x = x, sf_y = y, sf_z = z,
       sf_opacity = opacity,
       sf_colorscale = colors_scaled,
       sf_cmin = 0,
       sf_cmax = n_colors,
       sf_showscale = show_colorbar,
       sf_colorbar =
         \<lparr> cb_tickmode = ''array'',
           cb_tickvals =
             (if n_colors > 6 then arange 0 (n_colors + 1) 2 else arange 0 (n_colors + 1) 1),
           cb_ticktext =
             (if n_colors > 6 then arange 0 (n_colors + 1) 2 else arange 0 (n_colors + 1) 1),
           cb_orientation = ''v'', cb_y = 1 / 2, cb_x = 85 / 100, cb_len = 1 / 2,
           cb_tickfont_size = 20 \<rparr>,
       sf_contours_x =
         \<lparr> ct_show = True, ct_start = 0, ct_end = 10, ct_size = 2,
           ct_color = ''black'', ct_width = 5 \<rparr>,
       sf_contours_y =
         \<lparr> ct_show = True, ct_start = 0, ct_end = 3 / 2, ct_size = 1 / 2,
           ct_color = ''black'', ct_width = 5 \<rparr>,
       sf_hoverinfo = ''skip'',
       sf_lighting_ambient = ambient_light,
       sf_lighting_diffuse = 1 / 2 \<rparr>"

subsection \<open>Pairwise emphasis: the module-level pair loop of \<^verbatim>\<open>app.py\<close>\<close>

text \<open>Sequencing of computations that may raise.\<close>

definition bind_err :: "py_error + 'a \<Rightarrow> ('a \<Rightarrow> py_error + 'b) \<Rightarrow> py_error + 'b" where
  "bind_err r f = (case r of Inl e \<Rightarrow> Inl e | Inr v \<Rightarrow> f v)"

text \<open>Dictionary subscript \<^verbatim>\<open>d[k]\<close>: a missing key raises \<^verbatim>\<open>KeyError\<close>.\<close>

definition py_getitem :: "('k \<rightharpoonup> 'v) \<Rightarrow> 'k \<Rightarrow> py_error + 'v" where
  "py_getitem d k = (case d k of None \<Rightarrow> Inl KeyError | Some v \<Rightarrow> Inr v)"

text \<open>\<^verbatim>\<open>a.max()\<close> and \<^verbatim>\<open>a.min()\<close> over all entries of a two-dimensional array; on an array
  without entries numpy raises \<^verbatim>\<open>ValueError\<close>.\<close>

definition amax :: "('a :: linorder) list list \<Rightarrow> py_error + 'a" where
  "amax a = (case concat a of [] \<Rightarrow> Inl ValueError | v # vs \<Rightarrow> Inr (fold max vs v))"

definition amin :: "('a :: linorder) list list \<Rightarrow> py_error + 'a" where
  "amin a = (case concat a of [] \<Rightarrow> Inl ValueError | v # vs \<Rightarrow> Inr (fold min vs v))"

text \<open>One entry of \<^verbatim>\<open>surface_data\<close>. The values of \<^verbatim>\<open>group['files']\<close> are data frames; the
  model keeps the array \<^verbatim>\<open>to_numpy()\<close> yields, as its list of rows.\<close>

record group =
  g_axes_x :: "rat list"
  g_axes_y :: "rat list"
  g_files :: "string \<rightharpoonup> rat list list"
  g_colorscale :: "string \<rightharpoonup> (rat \<times> string) list"
  g_n_colors :: "string \<rightharpoonup> int"
  g_combinations :: "(string \<times> string) list"

text \<open>The body of the loop \<^verbatim>\<open>for names in combinations\<close> (lines 30 to 62 of \<^verbatim>\<open>app.py\<close>):
  the two surfaces appended to \<^verbatim>\<open>traces\<close>. The array attribute \<^verbatim>\<open>.T\<close> is \<^const>\<open>transpose\<close>.\<close>

definition pair_surfaces :: "group \<Rightarrow> string \<times> string \<Rightarrow> py_error + (surface \<times> surface)" where
  "pair_surfaces grp names =
     bind_err (py_getitem (g_files grp) (fst names)) (\<lambda>file_1.
     bind_err (py_getitem (g_files grp) (snd names)) (\<lambda>file_2.
       let data_1 = (if str_contains (fst names) ''WIP'' then transpose file_1 else file_1);
           data_2 = (if str_contains (fst names) ''WIP'' then transpose file_2 else file_2)
       in
     bind_err (amax data_1) (\<lambda>data_1_max.
     bind_err (amax data_2) (\<lambda>data_2_max.
     bind_err (py_getitem (g_colorscale grp) (fst names)) (\<lambda>colors_1.
     bind_err (py_getitem (g_n_colors grp) (fst names)) (\<lambda>n_1.
     bind_err (py_getitem (g_colorscale grp) (snd names)) (\<lambda>colors_2.
     bind_err (py_getitem (g_n_colors grp) (snd names)) (\<lambda>n_2.
       Inr
        (create_surface (g_axes_x grp) (g_axes_y grp) data_1 colors_1
           (if \<not> str_contains (fst names) ''SEE'' then n_1 else n_1 * 2)
           (if data_2_max > data_1_max then 1 else 4 / 5)
           (if data_2_max > data_1_max then False else True)
           (if data_2_max > data_1_max then 9 / 10 else 1 / 2),
         create_surface (g_axes_x grp) (g_axes_y grp) data_2 colors_2
           (if \<not> str_contains (snd names) ''SEE'' then n_2 else n_2 * 2)
           (if data_2_max > data_1_max then 4 / 5 else 1)
           (if data_2_max > data_1_max then True else False)
           (if data_2_max > data_1_max then 1 / 2 else 9 / 10))))))))))"

text \<open>The loop over the combinations of one group, stopping at the first exception.\<close>

fun group_traces :: "group \<Rightarrow> (string \<times> string) list \<Rightarrow> py_error + (surface \<times> surface) list" where
  "group_traces grp [] = Inr []"
| "group_traces grp (names # rest) =
     (case pair_surfaces grp names of
        Inl e \<Rightarrow> Inl e
      | Inr pair \<Rightarrow>
          (case group_traces grp rest of Inl e \<Rightarrow> Inl e | Inr pairs \<Rightarrow> Inr (pair # pairs)))"

subsection \<open>Scene layout builder: \<^verbatim>\<open>create_layout\<close>\<close>

text \<open>Of each axis the model keeps what depends on the inputs or differs between the axes; the
  styling constants shared by the three axes (colours, line and tick widths, fonts) are left
  out, as are the fonts and anchors of the annotations.\<close>

record axis =
  ax_range :: "rat list"
  ax_ticktext :: "string list"
  ax_tickvals :: "rat list"

record annotation =
  an_x :: rat
  an_y :: rat
  an_z :: rat
  an_text :: string
  an_textangle :: "int option"
  an_showarrow :: "bool option"
  an_ax :: "int option"
  an_ay :: "int option"

record layout =
  ly_autosize :: bool
  ly_height :: int
  ly_aspectmode :: string
  ly_aspectratio :: "rat \<times> rat \<times> rat"
  ly_xaxis :: axis
  ly_yaxis :: axis
  ly_zaxis :: axis
  ly_annotations :: "annotation list"
  ly_camera_center :: "rat \<times> rat \<times> rat"
  ly_camera_eye :: "rat \<times> rat \<times> rat"

text \<open>The helper reads \<^verbatim>\<open>arg0[-1][-1]\<close>; the two statements before it compute lengths that
  are discarded (\<^verbatim>\<open>len(arg0[0]) if arg0 else 0\<close> does not read an empty list). Both corner
  values are read before \<^verbatim>\<open>go.Layout\<close> is called, which validates its arguments.\<close>

definition extracted_from_create_layout_31 :: "rat list list \<Rightarrow> py_error + rat" where
  "extracted_from_create_layout_31 arg0 =
     bind_err (py_index arg0 (- 1)) (\<lambda>row. py_index row (- 1))"

definition create_layout ::
  "(layout \<Rightarrow> bool) \<Rightarrow> string \<Rightarrow> string \<Rightarrow> string \<Rightarrow> string \<Rightarrow> string
     \<Rightarrow> rat list list \<Rightarrow> rat list list \<Rightarrow> rat \<Rightarrow> rat \<Rightarrow> rat \<Rightarrow> py_error + layout"
where
  "create_layout accepts x_label y_label z_label surface_1_name surface_2_name
       surface_1_2d_list surface_2_2d_list x_scale y_scale z_scale =
     (let is_wpi = str_contains surface_1_name ''WPI'';
          y_tick_labels_cs = [''0'', ''0.5'', ''1.0'', ''1.5''];
          y_tick_vals_cs = [0, 1 / 2, 1, 3 / 2];
          y_tick_labels_wpi = [''15'', ''12'', ''9'', ''6''];
          y_tick_vals_wpi = [15, 12, 9, 6];
          z_tick_labels_see = [[], ''2'', ''4'', ''6'', ''8'', ''10'', ''12'', ''14''];
          z_tick_vals_see = [0, 2, 4, 6, 8, 10, 12, 14];
          z_tick_labels_wpi =
            [[], ''2'', ''4'', ''6'', ''8'', ''10'', ''12'', ''14'', ''16'', ''18'', ''20''];
          z_tick_vals_wpi = [0, 2, 4, 6, 8, 10, 12, 14, 16, 18, 20];
          z_tick_labels_shown = (if is_wpi then z_tick_labels_wpi else z_tick_labels_see);
          z_tick_vals_shown = (if is_wpi then z_tick_vals_wpi else z_tick_vals_see)
      in
      bind_err (extracted_from_create_layout_31 surface_1_2d_list) (\<lambda>annotation_1_z.
      bind_err (extracted_from_create_layout_31 surface_2_2d_list) (\<lambda>annotation_2_z.
        plotly_validate accepts
         \<lparr> ly_autosize = False,
           ly_height = 900,
           ly_aspectmode = ''manual'',
           ly_aspectratio = (x_scale, y_scale, z_scale),
           ly_xaxis =
             \<lparr> ax_range = [0, 10],
               ax_ticktext = [''0'', ''2'', ''4'', ''6'', ''8'', ''10''],
               ax_tickvals = [0, 2, 4, 6, 8, 10] \<rparr>,
           ly_yaxis =
             \<lparr> ax_range = (if str_contains surface_1_name ''WPI'' then [15, 6] else [0, 3 / 2]),
               ax_ticktext =
                 (if str_contains surface_1_name ''WPI'' then y_tick_labels_wpi
                  else y_tick_labels_cs),
               ax_tickvals =
                 (if str_contains surface_1_name ''WPI'' then y_tick_vals_wpi
                  else y_tick_vals_cs) \<rparr>,
           ly_zaxis =
             \<lparr> ax_range = (if str_contains surface_1_name ''SEE'' then [0, 14] else [0, 6]),
               ax_ticktext = z_tick_labels_shown,
               ax_tickvals = z_tick_vals_shown \<rparr>,
           ly_annotations =
             [\<lparr> an_x = 3, an_y = 1 / 5, an_z = 0, an_text = x_label,
                 an_textangle = Some 21, an_showarrow = Some False,
                 an_ax = None, an_ay = None \<rparr>,
              \<lparr> an_x = 98 / 10, an_y = 1 / 4, an_z = 0, an_text = y_label,
                 an_textangle = Some (- 43), an_showarrow = Some False,
                 an_ax = None, an_ay = None \<rparr>,
              \<lparr> an_x = 0, an_y = 2 / 100,
                 an_z = (if \<not> str_contains surface_1_name ''SEE'' then 3 else 7),
                 an_text = z_label,
                 an_textangle = Some (- 94), an_showarrow = Some False,
                 an_ax = None, an_ay = None \<rparr>,
              \<lparr> an_x = 10,
                 an_y = (if \<not> str_contains surface_1_name ''WPI'' then 3 / 2 else 1 / 2),
                 an_z = annotation_1_z, an_text = surface_1_name,
                 an_textangle = None, an_showarrow = None,
                 an_ax = Some 70, an_ay = Some (- 20) \<rparr>,
              \<lparr> an_x = 10,
                 an_y = (if \<not> str_contains surface_1_name ''WPI'' then 3 / 2 else 1 / 2),
                 an_z = annotation_2_z, an_text = surface_2_name,
                 an_textangle = None, an_showarrow = None,
                 an_ax = Some 70, an_ay = Some 20 \<rparr>],
           ly_camera_center = (2 / 10, 1 / 10, 0),
           ly_camera_eye = (96 / 100, - (112 / 100), 26 / 100) \<rparr>)))"

subsection \<open>Annotation protocol: \<^verbatim>\<open>add_traces_to_figure\<close> and the callback \<^verbatim>\<open>add_trace\<close>\<close>

text \<open>The values the callback stores in a trace dictionary: a string, a list of numbers (an
  empty number field of the page arrives as \<^verbatim>\<open>None\<close>) or a list of strings. A dictionary is a
  partial map from its keys.\<close>

datatype py_value = PyStr string | PyNums "rat option list" | PyStrs "string list"

type_synonym py_dict = "string \<rightharpoonup> py_value"

record scatter3d =
  sc_x :: py_value
  sc_y :: py_value
  sc_z :: py_value
  sc_mode :: string
  sc_text :: py_value
  sc_textposition :: string
  sc_textfont_family :: string
  sc_textfont_size :: int
  sc_textfont_color :: string
  sc_showlegend :: bool

record cone =
  co_x :: py_value
  co_y :: py_value
  co_z :: py_value
  co_u :: "int list"
  co_v :: "int list"
  co_w :: "int list"
  co_anchor :: string
  co_colorscale :: "(rat \<times> py_value) list"
  co_showscale :: bool
  co_showlegend :: bool

datatype trace = Surface surface | Scatter3d scatter3d | Cone cone

text \<open>A figure, as \<^verbatim>\<open>go.Figure\<close> holds it and \<^verbatim>\<open>to_dict\<close> writes it: the traces in order,
  and the layout.\<close>

record figure =
  fg_data :: "trace list"
  fg_layout :: "layout option"

text \<open>One round of the loop \<^verbatim>\<open>for trace in data\<close>. The branch taken is decided by
  \<^verbatim>\<open>trace['type']\<close>; a dictionary without a key that is read raises \<^verbatim>\<open>KeyError\<close>; a type that
  is neither \<^verbatim>\<open>'scatter3d'\<close> nor \<^verbatim>\<open>'cone'\<close> falls through both tests. \<^verbatim>\<open>figure.add_scatter3d\<close>
  and \<^verbatim>\<open>figure.add_cone\<close> validate the trace they are asked to add and raise \<^verbatim>\<open>ValueError\<close>
  when plotly refuses it; \<open>accepts\<close> says which traces pass.\<close>

definition add_one_trace :: "(trace \<Rightarrow> bool) \<Rightarrow> figure \<Rightarrow> py_dict \<Rightarrow> py_error + figure" where
  "add_one_trace accepts fig tr =
     bind_err (py_getitem tr ''type'') (\<lambda>ty.
       if ty = PyStr ''scatter3d'' then
         bind_err (py_getitem tr ''x'') (\<lambda>x.
         bind_err (py_getitem tr ''y'') (\<lambda>y.
         bind_err (py_getitem tr ''z'') (\<lambda>z.
         bind_err (py_getitem tr ''text'') (\<lambda>text.
         bind_err
           (plotly_validate accepts
             (Scatter3d
               \<lparr> sc_x = x, sc_y = y, sc_z = z,
                 sc_mode = ''text'',
                 sc_text = text,
                 sc_textposition = ''top center'',
                 sc_textfont_family = ''Arial'',
                 sc_textfont_size = 18,
                 sc_textfont_color = ''black'',
                 sc_showlegend = False \<rparr>)) (\<lambda>added.
           Inr (fig\<lparr> fg_data := fg_data fig @ [added] \<rparr>))))))
       else if ty = PyStr ''cone'' then
         bind_err (py_getitem tr ''x'') (\<lambda>x.
         bind_err (py_getitem tr ''y'') (\<lambda>y.
         bind_err (py_getitem tr ''z'') (\<lambda>z.
         bind_err (py_getitem tr ''color'') (\<lambda>color.
         bind_err
           (plotly_validate accepts
             (Cone
               \<lparr> co_x = x, co_y = y, co_z = z,
                 co_u = [0], co_v = [0], co_w = [- 2],
                 co_anchor = ''tip'',
                 co_colorscale = [(0, color), (1, color)],
                 co_showscale = False,
                 co_showlegend = False \<rparr>)) (\<lambda>added.
           Inr (fig\<lparr> fg_data := fg_data fig @ [added] \<rparr>))))))
       else Inr fig)"

fun add_traces_to_figure ::
  "(trace \<Rightarrow> bool) \<Rightarrow> figure \<Rightarrow> py_dict list \<Rightarrow> py_error + figure"
where
  "add_traces_to_figure accepts fig [] = Inr fig"
| "add_traces_to_figure accepts fig (tr # rest) =
     (case add_one_trace accepts fig tr of
        Inl e \<Rightarrow> Inl e
      | Inr fig' \<Rightarrow> add_traces_to_figure accepts fig' rest)"

text \<open>The callback behind the add button. \<^verbatim>\<open>n_clicks\<close> is \<^verbatim>\<open>None\<close> until the button is
  pressed; the three number fields are \<^verbatim>\<open>None\<close> when empty, and \<^verbatim>\<open>z - 1\<close> on \<^verbatim>\<open>None\<close> raises
  \<^verbatim>\<open>TypeError\<close>. \<^verbatim>\<open>figure_dict\<close> is the figure shown in the plot window, \<^verbatim>\<open>figures_dict\<close> the
  figure store, \<^verbatim>\<open>selected_graph\<close> the key chosen in the selector. The store is written only
  after both traces were added: an exception leaves it as it was.\<close>

definition add_trace ::
  "(trace \<Rightarrow> bool) \<Rightarrow> int option \<Rightarrow> rat option \<Rightarrow> rat option \<Rightarrow> rat option \<Rightarrow> string \<Rightarrow> string
     \<Rightarrow> figure \<Rightarrow> string \<Rightarrow> (string \<rightharpoonup> figure) \<Rightarrow> py_error + (string \<rightharpoonup> figure)"
where
  "add_trace accepts n_clicks x y z text color figure_dict selected_graph figures_dict =
     (if n_clicks = None then Inr figures_dict
      else
        bind_err (case z of None \<Rightarrow> Inl TypeError | Some zv \<Rightarrow> Inr (zv - 1)) (\<lambda>z_minus_1.
          let data_dicts =
                [[''type'' \<mapsto> PyStr ''scatter3d'', ''x'' \<mapsto> PyNums [x], ''y'' \<mapsto> PyNums [y],
                  ''z'' \<mapsto> PyNums [z], ''text'' \<mapsto> PyStrs [text]],
                 [''type'' \<mapsto> PyStr ''cone'', ''x'' \<mapsto> PyNums [x], ''y'' \<mapsto> PyNums [y],
                  ''z'' \<mapsto> PyNums [Some z_minus_1], ''color'' \<mapsto> PyStr color]]
          in
        bind_err (add_traces_to_figure accepts figure_dict data_dicts) (\<lambda>fig.
          Inr (figures_dict(selected_graph \<mapsto> fig)))))"

subsection \<open>Normalised difference: \<^verbatim>\<open>percentage_difference\<close>\<close>

text \<open>The arrays of the function are numpy arrays of a fixed-width element type. The model
  has the two types the program's data comes in: 64-bit integers and 64-bit floats. An array
  is its list of rows; a float array of the model holds finite values, infinities and
  not-a-number appear only as results.\<close>

datatype ndarray = Int64Array "int list list" | Float64Array "rat list list"

definition is_int64 :: "ndarray \<Rightarrow> bool" where
  "is_int64 a = (case a of Int64Array rows \<Rightarrow> True | Float64Array rows \<Rightarrow> False)"

text \<open>The numbers an array holds, and the shape they are laid out in.\<close>

definition array_values :: "ndarray \<Rightarrow> rat list list" where
  "array_values a =
     (case a of Int64Array rows \<Rightarrow> map (map rat_of_int) rows | Float64Array rows \<Rightarrow> rows)"

definition shape :: "rat list list \<Rightarrow> nat list" where
  "shape a = map length a"

text \<open>Arithmetic on 64-bit integers wraps around (two's complement): the result is the
  representative of the exact result in \<open>[-2^63, 2^63)\<close>. In particular the absolute value of
  \<open>-2^63\<close> is \<open>-2^63\<close> again.\<close>

definition wrap64 :: "int \<Rightarrow> int" where
  "wrap64 i = (i + 2 ^ 63) mod 2 ^ 64 - 2 ^ 63"

text \<open>A float result is finite, an infinity or not-a-number. A result whose exact value
  reaches \<open>2^1024 - 2^970\<close> in magnitude (half a unit in the last place above the largest
  64-bit float) overflows to an infinity. Below that the model keeps the exact value: rounding
  is not modelled.\<close>

datatype np_float = Finite rat | PosInf | NegInf | NaN

definition float64_overflow :: rat where
  "float64_overflow = 2 ^ 1024 - 2 ^ 970"

definition f64 :: "rat \<Rightarrow> np_float" where
  "f64 q =
     (if float64_overflow \<le> q then PosInf
      else if q \<le> - float64_overflow then NegInf
      else Finite q)"

definition np_abs :: "np_float \<Rightarrow> np_float" where
  "np_abs v =
     (case v of Finite q \<Rightarrow> Finite \<bar>q\<bar> | PosInf \<Rightarrow> PosInf | NegInf \<Rightarrow> PosInf | NaN \<Rightarrow> NaN)"

text \<open>A numpy division does not raise on a zero divisor: it yields an infinity, or not-a-number
  for \<open>0 / 0\<close>. The zero divisors of this function are positive zeros (\<open>x - x\<close>).\<close>

fun np_true_divide :: "np_float \<Rightarrow> np_float \<Rightarrow> np_float" where
  "np_true_divide NaN b = NaN"
| "np_true_divide a NaN = NaN"
| "np_true_divide (Finite x) (Finite y) =
     (if y \<noteq> 0 then f64 (x / y)
      else if x > 0 then PosInf else if x < 0 then NegInf else NaN)"
| "np_true_divide (Finite x) b = Finite 0"
| "np_true_divide PosInf (Finite y) = (if 0 \<le> y then PosInf else NegInf)"
| "np_true_divide NegInf (Finite y) = (if 0 \<le> y then NegInf else PosInf)"
| "np_true_divide a b = NaN"

definition np_times :: "np_float \<Rightarrow> rat \<Rightarrow> np_float" where
  "np_times v c =
     (case v of
        Finite q \<Rightarrow> f64 (q * c)
      | PosInf \<Rightarrow> (if c > 0 then PosInf else if c < 0 then NegInf else NaN)
      | NegInf \<Rightarrow> (if c > 0 then NegInf else if c < 0 then PosInf else NaN)
      | NaN \<Rightarrow> NaN)"

text \<open>\<^verbatim>\<open>np.abs(base_array - compare_array)\<close>. Two integer arrays give an integer array, computed
  with wrap-around; the division that follows converts its entries to floats, which the model
  does here (exactly). With a float array among the two the subtraction is a float subtraction
  of the values.\<close>

definition abs_difference :: "ndarray \<Rightarrow> ndarray \<Rightarrow> np_float list list" where
  "abs_difference base_array compare_array =
     (case base_array of
        Int64Array base_rows \<Rightarrow>
          (case compare_array of
             Int64Array compare_rows \<Rightarrow>
               map2 (map2 (\<lambda>b c. Finite (rat_of_int (wrap64 \<bar>wrap64 (b - c)\<bar>))))
                 base_rows compare_rows
           | Float64Array compare_rows \<Rightarrow>
               map2 (map2 (\<lambda>b c. np_abs (f64 (b - c))))
                 (array_values base_array) compare_rows)
      | Float64Array base_rows \<Rightarrow>
          map2 (map2 (\<lambda>b c. np_abs (f64 (b - c)))) base_rows (array_values compare_array))"

text \<open>\<^verbatim>\<open>np.max(base_array) - np.min(base_array)\<close>: a scalar of the element type of the base
  array, so an integer difference wraps around and a float difference can overflow.\<close>

definition max_minus_min :: "ndarray \<Rightarrow> py_error + np_float" where
  "max_minus_min base_array =
     (case base_array of
        Int64Array rows \<Rightarrow>
          bind_err (amax rows) (\<lambda>max_value.
          bind_err (amin rows) (\<lambda>min_value.
            Inr (Finite (rat_of_int (wrap64 (max_value - min_value))))))
      | Float64Array rows \<Rightarrow>
          bind_err (amax rows) (\<lambda>max_value.
          bind_err (amin rows) (\<lambda>min_value.
            Inr (f64 (max_value - min_value)))))"

text \<open>The model covers two arrays of one shape. On different shapes numpy broadcasts one array
  against the other or raises; the model does not follow that and returns the marker
  \<^const>\<open>UnmodelledBroadcast\<close>.\<close>

definition percentage_difference :: "ndarray \<Rightarrow> ndarray \<Rightarrow> py_error + np_float list list" where
  "percentage_difference base_array compare_array =
     (if shape (array_values base_array) \<noteq> shape (array_values compare_array)
      then Inl UnmodelledBroadcast
      else
        let difference = abs_difference base_array compare_array in
        bind_err (max_minus_min base_array) (\<lambda>max_possible_difference.
          let normalized_difference =
                map (map (\<lambda>d. np_true_divide d max_possible_difference)) difference
          in Inr (map (map (\<lambda>v. np_times v 100)) normalized_difference)))"

section \<open>Properties\<close>

subsection \<open>Colorscale builder\<close>


lemma colorscale_loop_ok:
  "\<forall>i \<in> set idx. i < length cols \<and> Suc i < length sv \<Longrightarrow>
   colorscale_loop sv cols idx acc =
     Inr (acc @ concat (map (\<lambda>i. [(sv ! i, cols ! i), (sv ! Suc i, cols ! i)]) idx))"
  by (induction idx arbitrary: acc) (auto dest: Suc_lessD)

lemma colorscale_loop_fail:
  "i \<in> set idx \<Longrightarrow> length cols \<le> i \<Longrightarrow> colorscale_loop sv cols idx acc = Inl IndexError"
  by (induction idx arbitrary: acc) auto

lemma length_pairs_upt:
  "length (concat (map (\<lambda>i. [f i, g i]) [0..<n])) = 2 * n"
  by (induction n) auto

lemma nth_pairs_upt:
  "k < 2 * n \<Longrightarrow>
   concat (map (\<lambda>i. [f i, g i]) [0..<n]) ! k = (if even k then f (k div 2) else g (k div 2))"
proof (induction n)
  case 0
  then show ?case by simp
next
  case (Suc n)
  show ?case
  proof (cases "k < 2 * n")
    case True
    with Suc.IH show ?thesis by (simp add: nth_append length_pairs_upt)
  next
    case False
    with Suc.prems have "k = 2 * n \<or> k = Suc (2 * n)" by arith
    then show ?thesis by (auto simp: nth_append length_pairs_upt)
  qed
qed

lemma linspace01_Suc:
  "0 \<le> n \<Longrightarrow>
   linspace01 (n + 1) = Inr (map (\<lambda>i. rat_of_nat i / rat_of_int n) [0..<Suc (nat n)])"
  by (auto simp: linspace01_def nat_add_distrib)

lemma distinct_palettes: "map_of COLOR_SCALES pal = Some colors \<Longrightarrow> distinct colors"
  unfolding COLOR_SCALES_def by (auto split: if_splits)

lemma make_colorscale_distinct_eq:
  assumes pal: "map_of COLOR_SCALES pal = Some colors"
    and n: "0 \<le> n" "n \<le> int (length colors)"
  shows "make_colorscale_distinct n pal =
     Inr (concat (map (\<lambda>i. [(rat_of_nat i / rat_of_int n, colors ! i),
                             (rat_of_nat (Suc i) / rat_of_int n, colors ! i)]) [0..<nat n]))"
proof -
  let ?sv = "map (\<lambda>i. rat_of_nat i / rat_of_int n) [0..<Suc (nat n)]"
  let ?cols = "py_slice_to colors n"
  have cols: "?cols = take (nat n) colors" using n by (simp add: py_slice_to_def)
  have len: "length ?cols = nat n" using n unfolding cols by simp
  have bounds: "\<forall>i \<in> set [0..<nat n]. i < length ?cols \<and> Suc i < length ?sv"
    using len by simp
  have "make_colorscale_distinct n pal = colorscale_loop ?sv ?cols [0..<nat n] []"
    using pal n(1) by (simp add: make_colorscale_distinct_def linspace01_Suc py_range_def)
  also have "\<dots> = Inr ([] @ concat (map (\<lambda>i. [(?sv ! i, ?cols ! i), (?sv ! Suc i, ?cols ! i)]) [0..<nat n]))"
    by (rule colorscale_loop_ok[OF bounds])
  also have "concat (map (\<lambda>i. [(?sv ! i, ?cols ! i), (?sv ! Suc i, ?cols ! i)]) [0..<nat n])
      = concat (map (\<lambda>i. [(rat_of_nat i / rat_of_int n, colors ! i),
                             (rat_of_nat (Suc i) / rat_of_int n, colors ! i)]) [0..<nat n])"
    by (rule arg_cong[where f = concat], rule map_cong[OF refl])
       (simp add: cols del: upt_Suc of_nat_Suc)
  finally show ?thesis by simp
qed

lemma make_colorscale_distinct_overflow:
  assumes pal: "map_of COLOR_SCALES pal = Some colors"
    and n: "int (length colors) < n"
  shows "make_colorscale_distinct n pal = Inl IndexError"
proof -
  have "0 \<le> n" using n by simp
  have cols: "py_slice_to colors n = colors" using n by (simp add: py_slice_to_def)
  have "length colors \<in> set [0..<nat n]" using n by simp
  then have "colorscale_loop sv colors [0..<nat n] [] = Inl IndexError" for sv
    by (rule colorscale_loop_fail) simp
  then show ?thesis
    using pal \<open>0 \<le> n\<close> by (simp add: make_colorscale_distinct_def linspace01_Suc py_range_def cols)
qed

lemma count_list_doubled:
  "count_list (concat (map (\<lambda>c. [c, c]) xs)) c = 2 * count_list xs c"
  by (induction xs) auto

lemma count_list_distinct: "distinct xs \<Longrightarrow> c \<in> set xs \<Longrightarrow> count_list xs c = 1"
  by (induction xs) auto

lemma map_snd_pairs:
  "n \<le> length colors \<Longrightarrow>
   map snd (concat (map (\<lambda>i. [(f i, colors ! i), (g i, colors ! i)]) [0..<n]))
     = concat (map (\<lambda>c. [c, c]) (take n colors))"
proof (induction n)
  case 0
  then show ?case by simp
next
  case (Suc n)
  then show ?case by (simp add: take_Suc_conv_app_nth)
qed


lemma fst_nth_pairs:
  "k < 2 * n \<Longrightarrow>
   fst (concat (map (\<lambda>i. [(p i, c i), (p (Suc i), c i)]) [0..<n]) ! k) = p (Suc k div 2)"
  by (auto simp: nth_pairs_upt elim!: oddE)

text \<open>
  \<^bold>\<open>Claim C3\<close> (as amended). For every \<open>n_colors\<close> that exceeds the length of the chosen palette,
  \<^const>\<open>make_colorscale_distinct\<close> raises \<^verbatim>\<open>IndexError\<close>: the slice \<^verbatim>\<open>colors[:n_colors]\<close> keeps the
  whole palette, and the loop reads \<^verbatim>\<open>colors[i]\<close> one past its end. Nothing is truncated and
  nothing wraps around. With the palette \<^verbatim>\<open>Set3\<close> of 12 entries, \<open>n_colors = 12\<close> returns 24 entries
  that use all 12 colours in order.
\<close>

theorem make_colorscale_distinct_beyond_palette:
  assumes "map_of COLOR_SCALES pal = Some colors" and "int (length colors) < n"
  shows "make_colorscale_distinct n pal = Inl IndexError
     \<and> (\<exists>cs set3. make_colorscale_distinct 12 ''Set3'' = Inr cs
           \<and> map_of COLOR_SCALES ''Set3'' = Some set3 \<and> length set3 = 12
           \<and> length cs = 24 \<and> map snd cs = concat (map (\<lambda>c. [c, c]) set3))"
proof
  show "make_colorscale_distinct n pal = Inl IndexError"
    using assms by (rule make_colorscale_distinct_overflow)
next
  obtain set3 where s: "map_of COLOR_SCALES ''Set3'' = Some set3" "length set3 = 12"
    by (simp add: COLOR_SCALES_def)
  have "make_colorscale_distinct 12 ''Set3'' =
     Inr (concat (map (\<lambda>i. [(rat_of_nat i / rat_of_int 12, set3 ! i),
                             (rat_of_nat (Suc i) / rat_of_int 12, set3 ! i)]) [0..<nat 12]))"
    by (rule make_colorscale_distinct_eq[OF s(1)]) (simp_all add: s(2))
  moreover have "map snd (concat (map (\<lambda>i. [(rat_of_nat i / rat_of_int 12, set3 ! i),
                             (rat_of_nat (Suc i) / rat_of_int 12, set3 ! i)]) [0..<nat 12]))
      = concat (map (\<lambda>c. [c, c]) (take (nat 12) set3))"
    by (rule map_snd_pairs) (simp add: s(2))
  ultimately show "\<exists>cs set3. make_colorscale_distinct 12 ''Set3'' = Inr cs
           \<and> map_of COLOR_SCALES ''Set3'' = Some set3 \<and> length set3 = 12
           \<and> length cs = 24 \<and> map snd cs = concat (map (\<lambda>c. [c, c]) set3)"
    using s by (simp add: length_pairs_upt)
qed

theorem make_colorscale_distinct_beyond_palette_witness:
  "map_option length (map_of COLOR_SCALES ''Vivid'') = Some 11
   \<and> make_colorscale_distinct 12 ''Vivid'' = Inl IndexError"
proof -
  have pal: "map_of COLOR_SCALES ''Vivid'' = Some
        [''rgb(229, 134, 6)'', ''rgb(93, 105, 177)'', ''rgb(82, 188, 163)'',
         ''rgb(153, 201, 69)'', ''rgb(204, 97, 176)'', ''rgb(36, 121, 108)'',
         ''rgb(218, 165, 27)'', ''rgb(47, 138, 196)'', ''rgb(118, 78, 159)'',
         ''rgb(237, 100, 90)'', ''rgb(165, 170, 153)'']"
    by (simp add: COLOR_SCALES_def)
  show ?thesis
    using make_colorscale_distinct_beyond_palette[OF pal, of 12] pal by simp
qed

theorem make_colorscale_distinct_beyond_palette_counterexample:
  "map_option length (map_of COLOR_SCALES ''Set3'') = Some 12
   \<and> make_colorscale_distinct 13 ''Set3'' = Inl IndexError"
  by code_simp

text \<open>
  \<^bold>\<open>Claim C4\<close> (as amended). For every \<open>n\<close> with \<open>1 \<le> n\<close> that does not exceed the length of the
  chosen palette, and every palette name of the table, \<^const>\<open>make_colorscale_distinct\<close> returns a
  list of exactly \<open>2n\<close> (position, colour) pairs. Its positions are taken from the \<open>n + 1\<close> evenly
  spaced points \<open>0, 1/n, \<dots>, 1\<close> that \<^const>\<open>linspace01\<close> yields: the entries \<open>2i\<close> and \<open>2i + 1\<close>
  carry the \<open>i\<close>-th palette colour at the points \<open>i\<close> and \<open>i + 1\<close> (a step, not a ramp). The
  positions are non-decreasing, the first is 0 and the last is 1, and each of the first \<open>n\<close>
  palette colours occurs exactly twice. For \<open>n\<close> beyond the palette the function raises, as
  the counterexample shows.
\<close>

theorem make_colorscale_distinct_stepped:
  assumes pal: "map_of COLOR_SCALES pal = Some colors"
    and n: "1 \<le> n" "n \<le> int (length colors)"
  shows "\<exists>cs pts. make_colorscale_distinct n pal = Inr cs \<and> linspace01 (n + 1) = Inr pts
     \<and> length pts = nat n + 1
     \<and> (\<forall>i<length pts. pts ! i = rat_of_nat i / rat_of_int n)
     \<and> length cs = 2 * nat n
     \<and> (\<forall>i<nat n. cs ! (2 * i) = (pts ! i, colors ! i)
                  \<and> cs ! (2 * i + 1) = (pts ! (i + 1), colors ! i))
     \<and> sorted (map fst cs) \<and> fst (hd cs) = 0 \<and> fst (last cs) = 1
     \<and> (\<forall>c \<in> set (take (nat n) colors). count_list (map snd cs) c = 2)"
proof -
  define p where "p = (\<lambda>i. rat_of_nat i / rat_of_int n)"
  define cs where "cs = concat (map (\<lambda>i. [(p i, colors ! i), (p (Suc i), colors ! i)]) [0..<nat n])"
  define pts where "pts = map p [0..<Suc (nat n)]"
  have n0: "0 \<le> n" and npos: "0 < nat n" and nle: "nat n \<le> length colors"
    using n by simp_all
  have run: "make_colorscale_distinct n pal = Inr cs"
    unfolding cs_def p_def by (rule make_colorscale_distinct_eq[OF pal n0 n(2)])
  have lin: "linspace01 (n + 1) = Inr pts"
    unfolding pts_def p_def by (rule linspace01_Suc[OF n0])
  have lpts: "length pts = nat n + 1" by (simp add: pts_def)
  have pts_nth: "pts ! i = p i" if "i < length pts" for i
    using that unfolding pts_def by (simp del: upt_Suc add: nth_map_upt)
  have len: "length cs = 2 * nat n" by (simp add: cs_def length_pairs_upt)
  have fst_nth: "fst (cs ! k) = p (Suc k div 2)" if "k < 2 * nat n" for k
    using that unfolding cs_def by (rule fst_nth_pairs)
  have entries: "cs ! (2 * i) = (pts ! i, colors ! i) \<and> cs ! (2 * i + 1) = (pts ! (i + 1), colors ! i)"
    if "i < nat n" for i
  proof -
    have "2 * i < 2 * nat n" "2 * i + 1 < 2 * nat n" using that by simp_all
    then show ?thesis
      using that by (simp add: cs_def nth_pairs_upt pts_nth lpts)
  qed
  have p_mono: "p i \<le> p j" if "i \<le> j" for i j
    using that n0 by (simp add: p_def divide_right_mono)
  have sorted: "sorted (map fst cs)"
    unfolding sorted_iff_nth_mono
  proof (intro allI impI)
    fix i j assume ij: "i \<le> j" "j < length (map fst cs)"
    then have "i < 2 * nat n" "j < 2 * nat n" using len by simp_all
    then have "map fst cs ! i = p (Suc i div 2)" "map fst cs ! j = p (Suc j div 2)"
      using len by (simp_all add: fst_nth)
    moreover have "Suc i div 2 \<le> Suc j div 2" using ij(1) by (simp add: div_le_mono)
    ultimately show "map fst cs ! i \<le> map fst cs ! j" using p_mono by simp
  qed
  have ne: "cs \<noteq> []" using len npos by auto
  have first: "fst (hd cs) = 0"
    using fst_nth[of 0] npos by (simp add: hd_conv_nth[OF ne] p_def)
  have "fst (last cs) = p (Suc (2 * nat n - 1) div 2)"
    using npos by (simp add: last_conv_nth[OF ne] len fst_nth)
  also have "Suc (2 * nat n - 1) div 2 = nat n" using npos by simp
  also have "p (nat n) = 1" using n by (simp add: p_def)
  finally have final: "fst (last cs) = 1" .
  have snd: "map snd cs = concat (map (\<lambda>c. [c, c]) (take (nat n) colors))"
    unfolding cs_def by (rule map_snd_pairs[OF nle])
  have twice: "count_list (map snd cs) c = 2" if "c \<in> set (take (nat n) colors)" for c
    using that distinct_palettes[OF pal]
    by (simp add: snd count_list_doubled count_list_distinct)
  show ?thesis
    using run lin lpts len entries sorted first final twice pts_nth by (simp add: p_def) 
qed

theorem make_colorscale_distinct_stepped_witness:
  "\<exists>cs pts. make_colorscale_distinct 3 ''D3'' = Inr cs \<and> linspace01 (3 + 1) = Inr pts
     \<and> length pts = 4 \<and> length cs = 6 \<and> pts ! 1 = 1 / 3
     \<and> cs ! 2 = (pts ! 1, ''#ff7f0e'') \<and> cs ! 3 = (pts ! 2, ''#ff7f0e'')
     \<and> sorted (map fst cs) \<and> fst (hd cs) = 0 \<and> fst (last cs) = 1
     \<and> count_list (map snd cs) ''#2ca02c'' = 2"
proof -
  have pal: "map_of COLOR_SCALES ''D3'' = Some
     [''#1f77b4'', ''#ff7f0e'', ''#2ca02c'', ''#d62728'', ''#9467bd'', ''#8c564b'',
      ''#e377c2'', ''#7f7f7f'', ''#bcbd22'', ''#17becf'']"
    by (simp add: COLOR_SCALES_def)
  from make_colorscale_distinct_stepped[OF pal, of 3]
  obtain cs pts where *: "make_colorscale_distinct 3 ''D3'' = Inr cs" "linspace01 (3 + 1) = Inr pts"
     "length pts = nat 3 + 1"
     "\<forall>i<length pts. pts ! i = rat_of_nat i / rat_of_int 3"
     "length cs = 2 * nat 3"
     "\<forall>i<nat 3. cs ! (2 * i) = (pts ! i, [''#1f77b4'', ''#ff7f0e'', ''#2ca02c'', ''#d62728'', ''#9467bd'', ''#8c564b'',
      ''#e377c2'', ''#7f7f7f'', ''#bcbd22'', ''#17becf''] ! i)
                  \<and> cs ! (2 * i + 1) = (pts ! (i + 1), [''#1f77b4'', ''#ff7f0e'', ''#2ca02c'', ''#d62728'', ''#9467bd'', ''#8c564b'',
      ''#e377c2'', ''#7f7f7f'', ''#bcbd22'', ''#17becf''] ! i)"
     "sorted (map fst cs)" "fst (hd cs) = 0" "fst (last cs) = 1"
     "\<forall>c \<in> set (take (nat 3) [''#1f77b4'', ''#ff7f0e'', ''#2ca02c'', ''#d62728'', ''#9467bd'', ''#8c564b'',
      ''#e377c2'', ''#7f7f7f'', ''#bcbd22'', ''#17becf'']). count_list (map snd cs) c = 2"
    by auto
  have a: "pts ! 1 = 1 / 3" using *(3,4) by simp
  have b: "cs ! 2 = (pts ! 1, ''#ff7f0e'') \<and> cs ! 3 = (pts ! 2, ''#ff7f0e'')"
    using *(6)[rule_format, of 1] by (simp add: numeral_2_eq_2 numeral_3_eq_3)
  have c: "count_list (map snd cs) ''#2ca02c'' = 2"
    using *(10) by (simp add: take_Suc_Cons numeral_3_eq_3)
  show ?thesis using * a b c by simp
qed


theorem make_colorscale_distinct_stepped_counterexample:
  "map_option length (map_of COLOR_SCALES ''Set1'') = Some 9
   \<and> make_colorscale_distinct 10 ''Set1'' = Inl IndexError"
  by code_simp

subsection \<open>Colorbar ticks of a surface\<close>

lemma arange_unit: "arange 0 (n + 1) 1 = map int [0..<nat (n + 1)]"
  by (simp add: arange_def add.commute)

lemma arange_two: "arange 0 (n + 1) 2 = map (\<lambda>k. int k * 2) [0..<nat (n div 2 + 1)]"
proof -
  have "(n + 1 - 0 + 2 - 1) div 2 = n div 2 + 1" by simp
  then show ?thesis by (simp add: arange_def)
qed

lemma set_arange_unit: "set (arange 0 (n + 1) 1) = {k. 0 \<le> k \<and> k \<le> n}"
proof -
  have "k \<in> int ` {0..<nat (n + 1)} \<longleftrightarrow> 0 \<le> k \<and> k \<le> n" for k
  proof
    assume "k \<in> int ` {0..<nat (n + 1)}"
    then show "0 \<le> k \<and> k \<le> n" by auto
  next
    assume "0 \<le> k \<and> k \<le> n"
    then have "k = int (nat k)" "nat k \<in> {0..<nat (n + 1)}" by auto
    then show "k \<in> int ` {0..<nat (n + 1)}" by (rule image_eqI)
  qed
  then show ?thesis by (auto simp: arange_unit)
qed

lemma set_arange_two: "set (arange 0 (n + 1) 2) = {k. 0 \<le> k \<and> k \<le> n \<and> even k}"
proof -
  have "k \<in> (\<lambda>j. int j * 2) ` {0..<nat (n div 2 + 1)} \<longleftrightarrow> 0 \<le> k \<and> k \<le> n \<and> even k" for k
  proof
    assume "k \<in> (\<lambda>j. int j * 2) ` {0..<nat (n div 2 + 1)}"
    then obtain j where j: "k = int j * 2" "j < nat (n div 2 + 1)" by auto
    then have "int j \<le> n div 2" by linarith
    then have "int j * 2 \<le> n" by linarith
    with j show "0 \<le> k \<and> k \<le> n \<and> even k" by simp
  next
    assume a: "0 \<le> k \<and> k \<le> n \<and> even k"
    then obtain m where m: "k = 2 * m" by (auto elim: evenE)
    with a have "0 \<le> m" "m \<le> n div 2" by linarith+
    then have "k = int (nat m) * 2" "nat m \<in> {0..<nat (n div 2 + 1)}" using m by auto
    then show "k \<in> (\<lambda>j. int j * 2) ` {0..<nat (n div 2 + 1)}" by (rule image_eqI)
  qed
  then show ?thesis by (auto simp: arange_two)
qed

text \<open>
  \<^bold>\<open>Claim C6\<close> (as amended). For every surface descriptor built by \<^const>\<open>create_surface\<close> with
  group count \<open>n\<close>, the colorbar tick positions are \<open>0, 2, 4, \<dots>\<close> when \<open>n > 6\<close> and
  \<open>0, 1, 2, \<dots>\<close> otherwise, in both cases exactly the positions of that step between 0 and \<open>n\<close>
  inclusive: all integers of \<open>[0, n]\<close> for \<open>n \<le> 6\<close>, the even integers of \<open>[0, n]\<close> for \<open>n > 6\<close>.
  So \<open>n\<close> itself is a tick position exactly when \<open>0 \<le> n\<close> and \<open>n \<le> 6\<close> or \<open>n\<close> is even; an odd
  \<open>n > 6\<close> is not a tick position.
\<close>

theorem create_surface_colorbar_ticks:
  "cb_tickvals (sf_colorbar (create_surface x y z cs n op sc al)) =
      map (\<lambda>k. int k * (if 6 < n then 2 else 1)) [0..<nat (if 6 < n then n div 2 + 1 else n + 1)]
   \<and> set (cb_tickvals (sf_colorbar (create_surface x y z cs n op sc al))) =
      {k. 0 \<le> k \<and> k \<le> n \<and> (if 6 < n then even k else True)}
   \<and> (n \<in> set (cb_tickvals (sf_colorbar (create_surface x y z cs n op sc al)))
        \<longleftrightarrow> 0 \<le> n \<and> (n \<le> 6 \<or> even n))"
proof -
  let ?t = "cb_tickvals (sf_colorbar (create_surface x y z cs n op sc al))"
  have t: "?t = (if 6 < n then arange 0 (n + 1) 2 else arange 0 (n + 1) 1)"
    by (simp add: create_surface_def)
  have e: "?t = map (\<lambda>k. int k * (if 6 < n then 2 else 1))
                  [0..<nat (if 6 < n then n div 2 + 1 else n + 1)]"
    unfolding t by (simp add: arange_two arange_unit)
  have s: "set ?t = {k. 0 \<le> k \<and> k \<le> n \<and> (if 6 < n then even k else True)}"
    unfolding t by (simp add: set_arange_two set_arange_unit)
  have m: "n \<in> set ?t \<longleftrightarrow> 0 \<le> n \<and> (n \<le> 6 \<or> even n)"
    unfolding s by auto
  show ?thesis by (intro conjI) (rule e, rule s, rule m)
qed

theorem create_surface_colorbar_ticks_witness:
  "cb_tickvals (sf_colorbar (create_surface [0, 10] [0, 3 / 2] [[1, 2], [3, 4]] [(0, ''#8DD3C7''), (1, ''#8DD3C7'')] 8 1 False (9 / 10))) = [0, 2, 4, 6, 8]
   \<and> 8 \<in> set (cb_tickvals (sf_colorbar (create_surface [0, 10] [0, 3 / 2] [[1, 2], [3, 4]] [(0, ''#8DD3C7''), (1, ''#8DD3C7'')] 8 1 False (9 / 10))))"
  using create_surface_colorbar_ticks[of "[0, 10]" "[0, 3 / 2]" "[[1, 2], [3, 4]]"
      "[(0, ''#8DD3C7''), (1, ''#8DD3C7'')]" 8 1 False "9 / 10"]
  by (simp add: upt_rec)

theorem create_surface_colorbar_ticks_counterexample:
  "cb_tickvals (sf_colorbar (create_surface [0, 10] [0, 3 / 2] [[1, 2], [3, 4]] [(0, ''#8DD3C7''), (1, ''#8DD3C7'')] 7 1 False (9 / 10))) = [0, 2, 4, 6]
   \<and> 7 \<notin> set (cb_tickvals (sf_colorbar (create_surface [0, 10] [0, 3 / 2] [[1, 2], [3, 4]] [(0, ''#8DD3C7''), (1, ''#8DD3C7'')] 7 1 False (9 / 10))))"
  by (simp add: create_surface_def arange_def upt_rec)

subsection \<open>Scene layout\<close>

lemma py_index_last: "py_index xs (- 1) = (if xs = [] then Inl IndexError else Inr (last xs))"
  by (cases xs rule: rev_cases) (auto simp: py_index_def nth_append)

lemma extracted_corner:
  "extracted_from_create_layout_31 g =
     (if g = [] \<or> last g = [] then Inl IndexError else Inr (last (last g)))"
  by (simp add: extracted_from_create_layout_31_def bind_err_def py_index_last)

lemma create_layout_validated:
  "create_layout accepts xl yl zl name1 name2 g1 g2 xs ys zs =
     bind_err (create_layout accept_all xl yl zl name1 name2 g1 g2 xs ys zs)
       (plotly_validate accepts)"
  by (simp add: create_layout_def bind_err_def Let_def plotly_validate_def accept_all_def
      split: sum.splits)

text \<open>
  \<^bold>\<open>Claim C2\<close> (as amended). For every scene layout that \<^const>\<open>create_layout\<close> builds (both grids
  have a corner value; the layout is the one handed to \<^verbatim>\<open>go.Layout\<close> and returned when plotly
  accepts it), the range of the z axis is decided by \<^verbatim>\<open>"SEE"\<close> and its ticks by
  \<^verbatim>\<open>"WPI"\<close>: the range is \<open>[0, 14]\<close> when the first surface name contains \<^verbatim>\<open>"SEE"\<close> and \<open>[0, 6]\<close>
  otherwise; the tick values are \<open>0, 2, \<dots>, 20\<close> when the name contains \<^verbatim>\<open>"WPI"\<close> and
  \<open>0, 2, \<dots>, 14\<close> otherwise, and the label of the tick 0 is the empty string in both cases.
  A name with both (such as \<^verbatim>\<open>"WPI_SEE_A"\<close>) gets the range \<open>[0, 14]\<close> with the ticks
  \<open>0, 2, \<dots>, 20\<close>.
\<close>

theorem create_layout_zaxis:
  assumes "extracted_from_create_layout_31 g1 = Inr c1"
    and "extracted_from_create_layout_31 g2 = Inr c2"
  shows "\<exists>ly. create_layout accepts xl yl zl name1 name2 g1 g2 xs ys zs
            = (if accepts ly then Inr ly else Inl ValueError)
     \<and> ax_range (ly_zaxis ly) = (if str_contains name1 ''SEE'' then [0, 14] else [0, 6])
     \<and> ax_tickvals (ly_zaxis ly) =
         (if str_contains name1 ''WPI'' then [0, 2, 4, 6, 8, 10, 12, 14, 16, 18, 20]
          else [0, 2, 4, 6, 8, 10, 12, 14])
     \<and> ax_ticktext (ly_zaxis ly) =
         (if str_contains name1 ''WPI''
          then [[], ''2'', ''4'', ''6'', ''8'', ''10'', ''12'', ''14'', ''16'', ''18'', ''20'']
          else [[], ''2'', ''4'', ''6'', ''8'', ''10'', ''12'', ''14''])
     \<and> ax_tickvals (ly_zaxis ly) ! 0 = 0 \<and> ax_ticktext (ly_zaxis ly) ! 0 = []"
proof -
  from assms have "\<exists>ly. create_layout accept_all xl yl zl name1 name2 g1 g2 xs ys zs = Inr ly
     \<and> ax_range (ly_zaxis ly) = (if str_contains name1 ''SEE'' then [0, 14] else [0, 6])
     \<and> ax_tickvals (ly_zaxis ly) =
         (if str_contains name1 ''WPI'' then [0, 2, 4, 6, 8, 10, 12, 14, 16, 18, 20]
          else [0, 2, 4, 6, 8, 10, 12, 14])
     \<and> ax_ticktext (ly_zaxis ly) =
         (if str_contains name1 ''WPI''
          then [[], ''2'', ''4'', ''6'', ''8'', ''10'', ''12'', ''14'', ''16'', ''18'', ''20'']
          else [[], ''2'', ''4'', ''6'', ''8'', ''10'', ''12'', ''14''])
     \<and> ax_tickvals (ly_zaxis ly) ! 0 = 0 \<and> ax_ticktext (ly_zaxis ly) ! 0 = []"
    by (simp add: create_layout_def bind_err_def Let_def plotly_validate_def accept_all_def)
  then obtain ly where built: "create_layout accept_all xl yl zl name1 name2 g1 g2 xs ys zs = Inr ly"
    and facts: "ax_range (ly_zaxis ly) = (if str_contains name1 ''SEE'' then [0, 14] else [0, 6])"
      "ax_tickvals (ly_zaxis ly) =
         (if str_contains name1 ''WPI'' then [0, 2, 4, 6, 8, 10, 12, 14, 16, 18, 20]
          else [0, 2, 4, 6, 8, 10, 12, 14])"
      "ax_ticktext (ly_zaxis ly) =
         (if str_contains name1 ''WPI''
          then [[], ''2'', ''4'', ''6'', ''8'', ''10'', ''12'', ''14'', ''16'', ''18'', ''20'']
          else [[], ''2'', ''4'', ''6'', ''8'', ''10'', ''12'', ''14''])"
      "ax_tickvals (ly_zaxis ly) ! 0 = 0" "ax_ticktext (ly_zaxis ly) ! 0 = []"
    by blast
  have run: "create_layout accepts xl yl zl name1 name2 g1 g2 xs ys zs
      = (if accepts ly then Inr ly else Inl ValueError)"
    by (simp add: create_layout_validated[of accepts] built bind_err_def plotly_validate_def)
  show ?thesis
    by (intro exI[of _ ly] conjI run facts)
qed

theorem create_layout_zaxis_witness:
  "\<exists>ly. create_layout accept_all ''Wave Height [m]'' ''Current Speed [m/s]'' ''SEE Index''
           ''CS_SEE_A'' ''CS_SEE_B'' [[1, 2], [3, 4]] [[5, 6], [7, 8]] 1 (1 / 2) (1 / 2) = Inr ly
     \<and> ax_range (ly_zaxis ly) = [0, 14]
     \<and> ax_tickvals (ly_zaxis ly) = [0, 2, 4, 6, 8, 10, 12, 14]
     \<and> ax_ticktext (ly_zaxis ly) ! 0 = []"
proof -
  have a: "extracted_from_create_layout_31 [[1, 2], [3, 4]] = Inr 4"
    by (simp add: extracted_corner)
  have b: "extracted_from_create_layout_31 [[5, 6], [7, 8]] = Inr 8"
    by (simp add: extracted_corner)
  have c: "str_contains ''CS_SEE_A'' ''SEE''" "\<not> str_contains ''CS_SEE_A'' ''WPI''"
    by (simp_all add: starts_with_def)
  show ?thesis
    using create_layout_zaxis[OF a b, of accept_all "''Wave Height [m]''"
        "''Current Speed [m/s]''" "''SEE Index''" "''CS_SEE_A''" "''CS_SEE_B''" 1 "1 / 2" "1 / 2"] c
    by (auto simp: accept_all_def)
qed

theorem create_layout_zaxis_counterexample:
  "str_contains ''WPI_SEE_A'' ''SEE''
   \<and> map_sum id (ax_range \<circ> ly_zaxis)
        (create_layout accept_all ''Wave Height [m]'' ''Wave Period [s]'' ''SEE Index''
           ''WPI_SEE_A'' ''WPI_SEE_B'' [[0, 7], [10, 14]] [[0, 5], [9, 13]] 1 (1 / 2) (1 / 2))
      = Inr [0, 14]
   \<and> map_sum id (ax_tickvals \<circ> ly_zaxis)
        (create_layout accept_all ''Wave Height [m]'' ''Wave Period [s]'' ''SEE Index''
           ''WPI_SEE_A'' ''WPI_SEE_B'' [[0, 7], [10, 14]] [[0, 5], [9, 13]] 1 (1 / 2) (1 / 2))
      = Inr [0, 2, 4, 6, 8, 10, 12, 14, 16, 18, 20]"
  by (simp add: create_layout_def bind_err_def Let_def extracted_corner starts_with_def
      plotly_validate_def accept_all_def)

text \<open>
  \<^bold>\<open>Claim C8\<close>. \<^const>\<open>create_layout\<close> is a function of its arguments, and it raises only on
  malformed inputs. When one of the two grids has no rows or its last row has no entries, the
  read of \<^verbatim>\<open>grid[-1][-1]\<close> raises \<^verbatim>\<open>IndexError\<close> at once, before \<^verbatim>\<open>go.Layout\<close> is called and
  whatever plotly accepts; in particular every grid without entries (no rows, or only empty
  rows) makes it raise. Otherwise the builder hands \<^verbatim>\<open>go.Layout\<close> a layout whose two pointer
  annotations sit at the bottom-right corner values of the grids and whose aspect ratio is the
  three scale factors; it returns that layout, or raises \<^verbatim>\<open>ValueError\<close> when plotly refuses
  an argument. There is no other exception.
\<close>

theorem create_layout_fails_fast:
  "(if g1 = [] \<or> last g1 = [] \<or> g2 = [] \<or> last g2 = []
    then create_layout accepts xl yl zl name1 name2 g1 g2 xs ys zs = Inl IndexError
    else \<exists>ly. create_layout accepts xl yl zl name1 name2 g1 g2 xs ys zs
                 = (if accepts ly then Inr ly else Inl ValueError)
           \<and> an_z (ly_annotations ly ! 3) = last (last g1)
           \<and> an_z (ly_annotations ly ! 4) = last (last g2)
           \<and> ly_aspectratio ly = (xs, ys, zs))
   \<and> (concat g1 = [] \<or> concat g2 = []
        \<longrightarrow> create_layout accepts xl yl zl name1 name2 g1 g2 xs ys zs = Inl IndexError)"
proof -
  have e: "g = [] \<or> last g = []" if "concat g = []" for g :: "rat list list"
    using that by (cases g rule: rev_cases) auto
  show ?thesis
  proof (cases "g1 = [] \<or> last g1 = [] \<or> g2 = [] \<or> last g2 = []")
    case True
    then have "create_layout accepts xl yl zl name1 name2 g1 g2 xs ys zs = Inl IndexError"
      by (auto simp: create_layout_def bind_err_def Let_def extracted_corner)
    with True show ?thesis by simp
  next
    case False
    then have "\<exists>ly. create_layout accept_all xl yl zl name1 name2 g1 g2 xs ys zs = Inr ly
           \<and> an_z (ly_annotations ly ! 3) = last (last g1)
           \<and> an_z (ly_annotations ly ! 4) = last (last g2)
           \<and> ly_aspectratio ly = (xs, ys, zs)"
      by (simp add: create_layout_def bind_err_def Let_def extracted_corner plotly_validate_def
          accept_all_def)
    then obtain ly where built: "create_layout accept_all xl yl zl name1 name2 g1 g2 xs ys zs = Inr ly"
      and facts: "an_z (ly_annotations ly ! 3) = last (last g1)"
        "an_z (ly_annotations ly ! 4) = last (last g2)" "ly_aspectratio ly = (xs, ys, zs)"
      by blast
    have run: "create_layout accepts xl yl zl name1 name2 g1 g2 xs ys zs
        = (if accepts ly then Inr ly else Inl ValueError)"
      by (simp add: create_layout_validated[of accepts] built bind_err_def plotly_validate_def)
    have ex: "\<exists>ly. create_layout accepts xl yl zl name1 name2 g1 g2 xs ys zs
                 = (if accepts ly then Inr ly else Inl ValueError)
           \<and> an_z (ly_annotations ly ! 3) = last (last g1)
           \<and> an_z (ly_annotations ly ! 4) = last (last g2)
           \<and> ly_aspectratio ly = (xs, ys, zs)"
      by (intro exI[of _ ly] conjI run facts)
    have ne: "concat g1 \<noteq> []" "concat g2 \<noteq> []"
      using False e[of g1] e[of g2] by (cases g1 rule: rev_cases; cases g2 rule: rev_cases; simp)+
    show ?thesis using False ex ne by (simp del: concat_eq_Nil_conv)
  qed
qed

theorem create_layout_fails_fast_witness:
  "create_layout accept_all ''x'' ''y'' ''z'' ''CS_EV_A'' ''CS_EV_B'' [] [[1]] 1 (1 / 2) (1 / 2)
     = Inl IndexError
   \<and> create_layout accept_all ''x'' ''y'' ''z'' ''CS_EV_A'' ''CS_EV_B'' [[1]] [[], []] 1 (1 / 2) (1 / 2)
     = Inl IndexError"
  using create_layout_fails_fast[of "[]" "[[1]]" accept_all "''x''" "''y''" "''z''" "''CS_EV_A''"
      "''CS_EV_B''" 1 "1 / 2" "1 / 2"]
    create_layout_fails_fast[of "[[1]]" "[[], []]" accept_all "''x''" "''y''" "''z''" "''CS_EV_A''"
      "''CS_EV_B''" 1 "1 / 2" "1 / 2"]
  by simp

subsection \<open>Annotation protocol\<close>

text \<open>
  \<^bold>\<open>Claim C7\<close>. When \<^const>\<open>add_trace\<close> runs with \<^verbatim>\<open>n_clicks\<close> equal to \<^verbatim>\<open>None\<close> (the add
  button was never pressed), it returns exactly the figure store it was given, whatever the
  other inputs are and whatever plotly accepts: no trace is appended to any figure.
\<close>

theorem add_trace_without_click:
  "add_trace accepts None x y z text color figure_dict selected_graph figures_dict
     = Inr figures_dict"
  by (simp add: add_trace_def)



lemma add_one_trace_other:
  "tr ''type'' = Some ty \<Longrightarrow> ty \<noteq> PyStr ''scatter3d'' \<Longrightarrow> ty \<noteq> PyStr ''cone'' \<Longrightarrow>
   add_one_trace accepts fig tr = Inr fig"
  by (simp add: add_one_trace_def bind_err_def py_getitem_def)

lemma add_one_trace_grows:
  "add_one_trace accepts fig tr = Inr fig' \<Longrightarrow>
   fg_layout fig' = fg_layout fig \<and>
   (\<exists>new. fg_data fig' = fg_data fig @ new \<and>
      length new = (if tr ''type'' = Some (PyStr ''scatter3d'') \<or> tr ''type'' = Some (PyStr ''cone'')
                    then 1 else 0))"
  by (auto simp: add_one_trace_def bind_err_def py_getitem_def plotly_validate_def
           split: option.splits if_splits)

lemma add_traces_to_figure_grows:
  "add_traces_to_figure accepts fig data = Inr fig' \<Longrightarrow>
   fg_layout fig' = fg_layout fig \<and>
   (\<exists>new. fg_data fig' = fg_data fig @ new \<and>
      length new = length (filter (\<lambda>tr. tr ''type'' = Some (PyStr ''scatter3d'')
                                        \<or> tr ''type'' = Some (PyStr ''cone'')) data))"
proof (induction data arbitrary: fig)
  case Nil
  then show ?case by simp
next
  case (Cons tr rest)
  from Cons.prems obtain mid where mid: "add_one_trace accepts fig tr = Inr mid"
    and rest: "add_traces_to_figure accepts mid rest = Inr fig'"
    by (auto split: sum.splits)
  from add_one_trace_grows[OF mid] obtain n1 where n1:
    "fg_layout mid = fg_layout fig" "fg_data mid = fg_data fig @ n1"
    "length n1 = (if tr ''type'' = Some (PyStr ''scatter3d'') \<or> tr ''type'' = Some (PyStr ''cone'')
                    then 1 else 0)"
    by blast
  from Cons.IH[OF rest] obtain n2 where n2:
    "fg_layout fig' = fg_layout mid" "fg_data fig' = fg_data mid @ n2"
    "length n2 = length (filter (\<lambda>tr. tr ''type'' = Some (PyStr ''scatter3d'')
                                        \<or> tr ''type'' = Some (PyStr ''cone'')) rest)"
    by blast
  have "fg_data fig' = fg_data fig @ (n1 @ n2)" using n1 n2 by simp
  moreover have "length (n1 @ n2) = length (filter (\<lambda>tr. tr ''type'' = Some (PyStr ''scatter3d'')
                                        \<or> tr ''type'' = Some (PyStr ''cone'')) (tr # rest))"
    using n1 n2 by simp
  ultimately show ?case using n1(1) n2(1) by metis
qed

lemma add_traces_to_figure_append:
  "add_traces_to_figure accepts fig (pre @ post) =
     (case add_traces_to_figure accepts fig pre of Inl e \<Rightarrow> Inl e
      | Inr mid \<Rightarrow> add_traces_to_figure accepts mid post)"
  by (induction pre arbitrary: fig) (auto split: sum.splits)

text \<open>
  \<^bold>\<open>Claim C10\<close>. \<^const>\<open>add_traces_to_figure\<close> appends a trace only for the entries whose
  \<^verbatim>\<open>'type'\<close> is \<^verbatim>\<open>'scatter3d'\<close> or \<^verbatim>\<open>'cone'\<close>. An entry with any other value of \<^verbatim>\<open>'type'\<close>
  is skipped without an exception: alone it leaves the figure as it is, and anywhere in the
  input list it can be removed without changing the result. Whenever the function returns, the
  layout is unchanged, the traces the figure had are kept in front, and the number of traces
  added is the number of entries of type \<^verbatim>\<open>'scatter3d'\<close> or \<^verbatim>\<open>'cone'\<close>. All this holds
  whatever plotly accepts.
\<close>

theorem add_traces_to_figure_skips_other_types:
  "(tr ''type'' = Some ty \<and> ty \<noteq> PyStr ''scatter3d'' \<and> ty \<noteq> PyStr ''cone''
      \<longrightarrow> add_traces_to_figure accepts fig [tr] = Inr fig
          \<and> add_traces_to_figure accepts fig (pre @ tr # post)
              = add_traces_to_figure accepts fig (pre @ post))
   \<and> (add_traces_to_figure accepts fig data = Inr fig'
      \<longrightarrow> fg_layout fig' = fg_layout fig
          \<and> take (length (fg_data fig)) (fg_data fig') = fg_data fig
          \<and> length (fg_data fig') = length (fg_data fig)
               + length (filter (\<lambda>e. e ''type'' = Some (PyStr ''scatter3d'')
                                      \<or> e ''type'' = Some (PyStr ''cone'')) data))"
proof (intro conjI impI)
  assume a: "tr ''type'' = Some ty \<and> ty \<noteq> PyStr ''scatter3d'' \<and> ty \<noteq> PyStr ''cone''"
  then have one: "add_one_trace accepts f tr = Inr f" for f
    by (simp add: add_one_trace_other)
  show "add_traces_to_figure accepts fig [tr] = Inr fig" by (simp add: one)
  show "add_traces_to_figure accepts fig (pre @ tr # post)
      = add_traces_to_figure accepts fig (pre @ post)"
    by (simp add: add_traces_to_figure_append one split: sum.splits)
next
  assume r: "add_traces_to_figure accepts fig data = Inr fig'"
  from add_traces_to_figure_grows[OF r] obtain new where new:
    "fg_layout fig' = fg_layout fig" "fg_data fig' = fg_data fig @ new"
    "length new = length (filter (\<lambda>tr. tr ''type'' = Some (PyStr ''scatter3d'')
                                        \<or> tr ''type'' = Some (PyStr ''cone'')) data)"
    by blast
  show "fg_layout fig' = fg_layout fig" by (rule new(1))
  show "take (length (fg_data fig)) (fg_data fig') = fg_data fig" by (simp add: new(2))
  show "length (fg_data fig') = length (fg_data fig)
               + length (filter (\<lambda>e. e ''type'' = Some (PyStr ''scatter3d'')
                                      \<or> e ''type'' = Some (PyStr ''cone'')) data)"
    by (simp add: new(2,3))
qed

theorem add_traces_to_figure_skips_other_types_witness:
  "add_traces_to_figure accept_all \<lparr> fg_data = [], fg_layout = None \<rparr>
      [[''type'' \<mapsto> PyStr ''mesh3d'', ''x'' \<mapsto> PyNums [Some 1]]]
     = Inr \<lparr> fg_data = [], fg_layout = None \<rparr>
   \<and> add_traces_to_figure accept_all \<lparr> fg_data = [], fg_layout = None \<rparr>
      [[''type'' \<mapsto> PyStr ''cone'', ''x'' \<mapsto> PyNums [Some 1], ''y'' \<mapsto> PyNums [Some 2],
        ''z'' \<mapsto> PyNums [Some 3], ''color'' \<mapsto> PyStr ''red''],
       [''type'' \<mapsto> PyNums [], ''x'' \<mapsto> PyNums [Some 1]]]
     = add_traces_to_figure accept_all \<lparr> fg_data = [], fg_layout = None \<rparr>
      [[''type'' \<mapsto> PyStr ''cone'', ''x'' \<mapsto> PyNums [Some 1], ''y'' \<mapsto> PyNums [Some 2],
        ''z'' \<mapsto> PyNums [Some 3], ''color'' \<mapsto> PyStr ''red'']]"
  using add_traces_to_figure_skips_other_types
     [of "[''type'' \<mapsto> PyStr ''mesh3d'', ''x'' \<mapsto> PyNums [Some 1]]" "PyStr ''mesh3d''"
         accept_all "\<lparr> fg_data = [], fg_layout = None \<rparr>" "[]" "[]"]
    add_traces_to_figure_skips_other_types
     [of "[''type'' \<mapsto> PyNums [], ''x'' \<mapsto> PyNums [Some 1]]" "PyNums []" accept_all
         "\<lparr> fg_data = [], fg_layout = None \<rparr>"
         "[[''type'' \<mapsto> PyStr ''cone'', ''x'' \<mapsto> PyNums [Some 1], ''y'' \<mapsto> PyNums [Some 2],
        ''z'' \<mapsto> PyNums [Some 3], ''color'' \<mapsto> PyStr ''red'']]" "[]"]
  by simp




subsection \<open>Pairwise emphasis\<close>



lemma amax_Max: "amax a = (if concat a = [] then Inl ValueError else Inr (Max (set (concat a))))"
  by (cases "concat a")
     (simp_all add: amax_def Max.set_eq_fold[symmetric] del: concat_eq_Nil_conv)

lemma amin_Min: "amin a = (if concat a = [] then Inl ValueError else Inr (Min (set (concat a))))"
  by (cases "concat a")
     (simp_all add: amin_def Min.set_eq_fold[symmetric] del: concat_eq_Nil_conv)




subsection \<open>Normalised difference\<close>

lemma amin_le_amax:
  assumes "amax a = Inr M" and "amin a = Inr m"
  shows "m \<le> M"
proof -
  from assms have ne: "concat a \<noteq> []" and M: "M = Max (set (concat a))"
    and m: "m = Min (set (concat a))"
    by (auto simp: amax_Max amin_Min split: if_splits)
  then obtain v where "v \<in> set (concat a)" by (cases "concat a") auto
  then have "Min (set (concat a)) \<le> v" "v \<le> Max (set (concat a))" by simp_all
  then show ?thesis using M m by simp
qed

lemma amax_of_int:
  "amax (map (map rat_of_int) rows) =
     (case amax rows of Inl e \<Rightarrow> Inl e | Inr v \<Rightarrow> Inr (rat_of_int v))"
proof (cases "concat rows = []")
  case True
  then show ?thesis by (simp add: amax_Max map_concat[symmetric] del: concat_eq_Nil_conv)
next
  case False
  have "mono rat_of_int" by (simp add: mono_def)
  then have "rat_of_int (Max (set (concat rows))) = Max (rat_of_int ` set (concat rows))"
    using False by (intro mono_Max_commute) simp_all
  then show ?thesis
    using False
    by (simp add: amax_Max map_concat[symmetric] del: concat_eq_Nil_conv set_concat)
qed

lemma amin_of_int:
  "amin (map (map rat_of_int) rows) =
     (case amin rows of Inl e \<Rightarrow> Inl e | Inr v \<Rightarrow> Inr (rat_of_int v))"
proof (cases "concat rows = []")
  case True
  then show ?thesis by (simp add: amin_Min map_concat[symmetric] del: concat_eq_Nil_conv)
next
  case False
  have "mono rat_of_int" by (simp add: mono_def)
  then have "rat_of_int (Min (set (concat rows))) = Min (rat_of_int ` set (concat rows))"
    using False by (intro mono_Min_commute) simp_all
  then show ?thesis
    using False
    by (simp add: amin_Min map_concat[symmetric] del: concat_eq_Nil_conv set_concat)
qed

lemma wrap64_id: "- (2 ^ 63) \<le> i \<Longrightarrow> i < 2 ^ 63 \<Longrightarrow> wrap64 i = i"
  by (simp add: wrap64_def)

lemma float64_overflow_pos: "0 < float64_overflow"
  by (simp add: float64_overflow_def)

lemma f64_id: "\<bar>q\<bar> < float64_overflow \<Longrightarrow> f64 q = Finite q"
  by (auto simp: f64_def)

lemma entry_int:
  assumes "\<bar>rat_of_int b - rat_of_int c\<bar> < 2 ^ 63"
  shows "Finite (rat_of_int (wrap64 \<bar>wrap64 (b - c)\<bar>)) = Finite \<bar>rat_of_int b - rat_of_int c\<bar>"
proof -
  have "rat_of_int \<bar>b - c\<bar> < rat_of_int (2 ^ 63)" using assms by simp
  then have small: "\<bar>b - c\<bar> < 2 ^ 63" by (simp only: of_int_less_iff)
  then have "wrap64 (b - c) = b - c" by (intro wrap64_id) linarith+
  moreover have "wrap64 \<bar>b - c\<bar> = \<bar>b - c\<bar>" using small by (intro wrap64_id) linarith+
  ultimately show ?thesis by simp
qed

lemma entry_float:
  "\<bar>b - c\<bar> < float64_overflow \<Longrightarrow> np_abs (f64 (b - c)) = Finite \<bar>b - c\<bar>"
  by (simp add: f64_id np_abs_def)

lemma map2_map2_cong:
  "list_all2 (list_all2 (\<lambda>b c. f b c = g b c)) xss yss \<Longrightarrow>
   map2 (map2 f) xss yss = map2 (map2 g) xss yss"
proof (induction xss yss rule: list_all2_induct)
  case Nil
  then show ?case by simp
next
  case (Cons xs xss ys yss)
  from Cons.hyps(1) have "map2 f xs ys = map2 g xs ys"
    by (induction xs ys rule: list_all2_induct) simp_all
  with Cons.IH show ?case by simp
qed

lemma map2_map2_map:
  "map2 (map2 h) (map (map f) xss) (map (map g) yss) =
   map2 (map2 (\<lambda>x y. h (f x) (g y))) xss yss"
proof (induction xss yss rule: list_induct2')
  case (4 xs xss ys yss)
  have "map2 h (map f xs) (map g ys) = map2 (\<lambda>x y. h (f x) (g y)) xs ys"
    by (induction xs ys rule: list_induct2') simp_all
  with 4 show ?case by simp
qed simp_all

lemma map_map_map2:
  "map (map f) (map2 (map2 g) a b) = map2 (map2 (\<lambda>x y. f (g x y))) a b"
  by (simp add: case_prod_unfold)

lemma list_all2_mono2:
  "list_all2 (list_all2 P) xss yss \<Longrightarrow> (\<And>x y. P x y \<Longrightarrow> Q x y) \<Longrightarrow>
   list_all2 (list_all2 Q) xss yss"
  by (erule list_all2_mono) (erule list_all2_mono, simp)

lemma abs_difference_exact:
  assumes "list_all2 (list_all2 (\<lambda>b c. \<bar>b - c\<bar> <
       (if is_int64 base \<and> is_int64 compare then 2 ^ 63 else float64_overflow)))
     (array_values base) (array_values compare)"
  shows "abs_difference base compare =
     map2 (map2 (\<lambda>b c. Finite \<bar>b - c\<bar>)) (array_values base) (array_values compare)"
proof (cases base)
  case (Int64Array bs)
  show ?thesis
  proof (cases compare)
    case (Int64Array cs)
    with \<open>base = Int64Array bs\<close> assms
    have "list_all2 (list_all2 (\<lambda>b c. \<bar>rat_of_int b - rat_of_int c\<bar> < 2 ^ 63)) bs cs"
      by (simp add: is_int64_def array_values_def list_all2_map1 list_all2_map2)
    then have "list_all2 (list_all2 (\<lambda>b c.
        Finite (rat_of_int (wrap64 \<bar>wrap64 (b - c)\<bar>)) = Finite \<bar>rat_of_int b - rat_of_int c\<bar>)) bs cs"
      by (rule list_all2_mono2) (rule entry_int)
    then have "map2 (map2 (\<lambda>b c. Finite (rat_of_int (wrap64 \<bar>wrap64 (b - c)\<bar>)))) bs cs
        = map2 (map2 (\<lambda>b c. Finite \<bar>rat_of_int b - rat_of_int c\<bar>)) bs cs"
      by (rule map2_map2_cong)
    then show ?thesis
      using Int64Array \<open>base = Int64Array bs\<close>
      by (simp add: abs_difference_def array_values_def map2_map2_map)
  next
    case (Float64Array cs)
    with \<open>base = Int64Array bs\<close> assms
    have "list_all2 (list_all2 (\<lambda>b c. \<bar>b - c\<bar> < float64_overflow)) (array_values base) cs"
      by (simp add: is_int64_def array_values_def)
    then have "list_all2 (list_all2 (\<lambda>b c. np_abs (f64 (b - c)) = Finite \<bar>b - c\<bar>))
        (array_values base) cs"
      by (rule list_all2_mono2) (rule entry_float)
    then have "map2 (map2 (\<lambda>b c. np_abs (f64 (b - c)))) (array_values base) cs
        = map2 (map2 (\<lambda>b c. Finite \<bar>b - c\<bar>)) (array_values base) cs"
      by (rule map2_map2_cong)
    then show ?thesis
      using Float64Array \<open>base = Int64Array bs\<close>
      by (simp add: abs_difference_def array_values_def)
  qed
next
  case (Float64Array bs)
  with assms
  have "list_all2 (list_all2 (\<lambda>b c. \<bar>b - c\<bar> < float64_overflow)) bs (array_values compare)"
    by (simp add: is_int64_def array_values_def)
  then have "list_all2 (list_all2 (\<lambda>b c. np_abs (f64 (b - c)) = Finite \<bar>b - c\<bar>))
      bs (array_values compare)"
    by (rule list_all2_mono2) (rule entry_float)
  then have "map2 (map2 (\<lambda>b c. np_abs (f64 (b - c)))) bs (array_values compare)
      = map2 (map2 (\<lambda>b c. Finite \<bar>b - c\<bar>)) bs (array_values compare)"
    by (rule map2_map2_cong)
  then show ?thesis
    using Float64Array by (simp add: abs_difference_def array_values_def)
qed

lemma max_minus_min_exact:
  assumes M: "amax (array_values base) = Inr M" and m: "amin (array_values base) = Inr m"
    and small: "M - m < (if is_int64 base then 2 ^ 63 else float64_overflow)"
  shows "max_minus_min base = Inr (Finite (M - m))"
proof -
  have le: "m \<le> M" using M m by (rule amin_le_amax)
  show ?thesis
  proof (cases base)
    case (Int64Array rows)
    from M m Int64Array obtain Mi mi where i: "amax rows = Inr Mi" "amin rows = Inr mi"
      "M = rat_of_int Mi" "m = rat_of_int mi"
      by (auto simp: array_values_def amax_of_int amin_of_int split: sum.splits)
    from small Int64Array i have "rat_of_int (Mi - mi) < rat_of_int (2 ^ 63)"
      by (simp add: is_int64_def)
    then have "Mi - mi < 2 ^ 63" by (simp only: of_int_less_iff)
    moreover have "0 \<le> Mi - mi" using le i by simp
    ultimately have "wrap64 (Mi - mi) = Mi - mi" by (intro wrap64_id) linarith+
    then show ?thesis
      using Int64Array i by (simp add: max_minus_min_def bind_err_def)
  next
    case (Float64Array rows)
    from small Float64Array le have "\<bar>M - m\<bar> < float64_overflow"
      by (simp add: is_int64_def)
    then have "f64 (M - m) = Finite (M - m)" by (rule f64_id)
    then show ?thesis
      using Float64Array M m by (simp add: max_minus_min_def bind_err_def array_values_def)
  qed
qed

text \<open>
  \<^bold>\<open>Claim C9\<close> (as amended). For every two arrays of one shape, of 64-bit integers or of 64-bit
  floats, the base array having entries with maximum \<open>max_value\<close> and minimum \<open>min_value\<close>, and
  no intermediate result leaving the range of its type: \<open>max_value - min_value\<close> and every
  \<open>|b - c|\<close> stay below \<open>2^63\<close> where they are computed on integers and below the float overflow
  bound where they are computed on floats, and so does every \<open>100 * |b - c| / (max_value -
  min_value)\<close>. Then, when \<open>max_value > min_value\<close>, \<^const>\<open>percentage_difference\<close> returns, entry
  by entry, the finite number \<open>100 * |b - c| / (max_value - min_value)\<close> (float rounding is not
  modelled). The division has no guard: when the base array is constant the divisor is zero
  and every entry of the result is not-a-number (where the two arrays agree) or an infinity
  (where they differ), so a non-constant base array is what makes the divisor non-zero.
  Outside the range condition the formula fails: integer arithmetic wraps around.
\<close>

theorem percentage_difference_normalised:
  assumes "shape (array_values base_array) = shape (array_values compare_array)"
    and "amax (array_values base_array) = Inr max_value"
    and "amin (array_values base_array) = Inr min_value"
    and "max_value - min_value < (if is_int64 base_array then 2 ^ 63 else float64_overflow)"
    and "list_all2 (list_all2 (\<lambda>b c.
            \<bar>b - c\<bar> < (if is_int64 base_array \<and> is_int64 compare_array then 2 ^ 63
                       else float64_overflow)
          \<and> (min_value < max_value
               \<longrightarrow> 100 * \<bar>b - c\<bar> / (max_value - min_value) < float64_overflow)))
        (array_values base_array) (array_values compare_array)"
  shows "min_value \<le> max_value
     \<and> (if min_value < max_value
        then percentage_difference base_array compare_array =
               Inr (map2 (map2 (\<lambda>b c. Finite (100 * \<bar>b - c\<bar> / (max_value - min_value))))
                      (array_values base_array) (array_values compare_array))
        else percentage_difference base_array compare_array =
               Inr (map2 (map2 (\<lambda>b c. if b = c then NaN else PosInf))
                      (array_values base_array) (array_values compare_array)))"
proof -
  let ?D = "max_value - min_value"
  have le: "min_value \<le> max_value" using assms(2,3) by (rule amin_le_amax)
  have diff: "abs_difference base_array compare_array =
      map2 (map2 (\<lambda>b c. Finite \<bar>b - c\<bar>)) (array_values base_array) (array_values compare_array)"
    by (rule abs_difference_exact, rule list_all2_mono2[OF assms(5)]) simp
  have div: "max_minus_min base_array = Inr (Finite ?D)"
    using assms(2,3,4) by (rule max_minus_min_exact)
  have run: "percentage_difference base_array compare_array =
     Inr (map2 (map2 (\<lambda>b c. np_times (np_true_divide (Finite \<bar>b - c\<bar>) (Finite ?D)) 100))
            (array_values base_array) (array_values compare_array))"
    using assms(1)
    by (simp add: percentage_difference_def bind_err_def Let_def diff div case_prod_unfold
        comp_def del: np_true_divide.simps)
  show ?thesis
  proof (cases "min_value < max_value")
    case True
    have entry: "np_times (np_true_divide (Finite \<bar>b - c\<bar>) (Finite ?D)) 100
        = Finite (100 * \<bar>b - c\<bar> / ?D)"
      if "100 * \<bar>b - c\<bar> / ?D < float64_overflow" for b c
    proof -
      have pos: "0 < ?D" using True by simp
      have q0: "0 \<le> \<bar>b - c\<bar> / ?D" using pos by simp
      have "\<bar>b - c\<bar> / ?D \<le> 100 * (\<bar>b - c\<bar> / ?D)" using q0 by simp
      then have q1: "\<bar>b - c\<bar> / ?D < float64_overflow" using that by simp
      have a1: "\<bar>\<bar>b - c\<bar> / ?D\<bar> < float64_overflow"
        using q0 q1 by (simp only: abs_of_nonneg)
      have e: "\<bar>b - c\<bar> / ?D * 100 = 100 * \<bar>b - c\<bar> / ?D" by simp
      have q2: "0 \<le> 100 * \<bar>b - c\<bar> / ?D" using pos by simp
      have a2: "\<bar>\<bar>b - c\<bar> / ?D * 100\<bar> < float64_overflow"
        unfolding e using q2 that by (simp only: abs_of_nonneg)
      have "f64 (\<bar>b - c\<bar> / ?D) = Finite (\<bar>b - c\<bar> / ?D)"
        by (rule f64_id[OF a1])
      moreover have "f64 (\<bar>b - c\<bar> / ?D * 100) = Finite (\<bar>b - c\<bar> / ?D * 100)"
        by (rule f64_id[OF a2])
      ultimately show ?thesis using pos by (simp add: np_times_def)
    qed
    have "list_all2 (list_all2 (\<lambda>b c.
        np_times (np_true_divide (Finite \<bar>b - c\<bar>) (Finite ?D)) 100
          = Finite (100 * \<bar>b - c\<bar> / ?D)))
      (array_values base_array) (array_values compare_array)"
      by (rule list_all2_mono2[OF assms(5)]) (use True entry in blast)
    then have "map2 (map2 (\<lambda>b c. np_times (np_true_divide (Finite \<bar>b - c\<bar>) (Finite ?D)) 100))
            (array_values base_array) (array_values compare_array)
        = map2 (map2 (\<lambda>b c. Finite (100 * \<bar>b - c\<bar> / ?D)))
            (array_values base_array) (array_values compare_array)"
      by (rule map2_map2_cong)
    then show ?thesis using True le run by simp
  next
    case False
    with le have eq: "?D = 0" by simp
    have "np_times (np_true_divide (Finite \<bar>b - c\<bar>) (Finite ?D)) 100
        = (if b = c then NaN else PosInf)" for b c
      unfolding eq by (simp add: np_times_def)
    then show ?thesis using False le run by simp
  qed
qed

theorem percentage_difference_normalised_witness:
  "percentage_difference (Float64Array [[0, 2], [4, 10]]) (Float64Array [[1, 2], [9, 0]])
       = Inr [[Finite 10, Finite 0], [Finite 50, Finite 100]]
   \<and> percentage_difference (Int64Array [[0, 2], [4, 10]]) (Int64Array [[1, 2], [9, 0]])
       = Inr [[Finite 10, Finite 0], [Finite 50, Finite 100]]
   \<and> percentage_difference (Float64Array [[3, 3]]) (Float64Array [[3, 5]]) = Inr [[NaN, PosInf]]"
proof -
  have big: "(100 :: rat) < float64_overflow" by (simp add: float64_overflow_def)
  have f: "percentage_difference (Float64Array [[0, 2], [4, 10]]) (Float64Array [[1, 2], [9, 0]])
       = Inr [[Finite 10, Finite 0], [Finite 50, Finite 100]]"
    using percentage_difference_normalised
      [of "Float64Array [[0, 2], [4, 10]]" "Float64Array [[1, 2], [9, 0]]" 10 0] big
    by (simp add: shape_def array_values_def amax_def amin_def is_int64_def)
  have i: "percentage_difference (Int64Array [[0, 2], [4, 10]]) (Int64Array [[1, 2], [9, 0]])
       = Inr [[Finite 10, Finite 0], [Finite 50, Finite 100]]"
    using percentage_difference_normalised
      [of "Int64Array [[0, 2], [4, 10]]" "Int64Array [[1, 2], [9, 0]]" 10 0] big
    by (simp add: shape_def array_values_def amax_def amin_def is_int64_def)
  have c: "percentage_difference (Float64Array [[3, 3]]) (Float64Array [[3, 5]])
       = Inr [[NaN, PosInf]]"
    using percentage_difference_normalised
      [of "Float64Array [[3, 3]]" "Float64Array [[3, 5]]" 3 3] big
    by (simp add: shape_def array_values_def amax_def amin_def is_int64_def)
  show ?thesis using f i c by simp
qed

theorem percentage_difference_normalised_counterexample:
  "shape (array_values (Int64Array [[2 ^ 63 - 1, 0]])) = shape (array_values (Int64Array [[- 1, 0]]))
   \<and> amax (array_values (Int64Array [[2 ^ 63 - 1, 0]])) = Inr (2 ^ 63 - 1)
   \<and> amin (array_values (Int64Array [[2 ^ 63 - 1, 0]])) = Inr 0
   \<and> percentage_difference (Int64Array [[2 ^ 63 - 1, 0]]) (Int64Array [[- 1, 0]])
       = Inr [[Finite (- (100 * 2 ^ 63 / (2 ^ 63 - 1))), Finite 0]]"
  by (simp add: shape_def array_values_def amax_def amin_def percentage_difference_def
      abs_difference_def max_minus_min_def bind_err_def wrap64_def f64_def float64_overflow_def
      np_times_def)

end
